theory Spec2Isabelle
  imports Main
begin

section \<open>GoChat: the chat server and its console client\<close>

text \<open>
  The source file holds two Go programs: the console client (its \<open>main\<close>, \<open>postMessage\<close>,
  \<open>joinRoom\<close>, \<open>updateMessages\<close>) and the HTTP/websocket server (its handlers, \<open>postMessage\<close>,
  \<open>getMessages\<close>, \<open>getMessagesAfter\<close>, \<open>remove\<close>). Both declare \<open>Message\<close>; the server's functions
  keep their names here and the client's carry the prefix \<open>client_\<close> where the two clash.

  Everything outside the two programs is a collaborator whose answers are inputs of the
  model: the SQLite store (its tables are lists in insertion order, its failures are the
  \<open>*_fault\<close> fields), the websocket transports (a handle, and the list of handles whose writes
  fail), the wall clock (the argument \<open>now\<close>, the value of \<open>time.Now().Unix()\<close>) and the HTTP
  transport of the client. Go's \<open>int\<close> and \<open>int64\<close> are \<open>int\<close>: the only arithmetic is
  \<open>now - 3600\<close> on clock readings, which does not wrap.
\<close>

subsection \<open>Errors and outcomes\<close>

text \<open>
  \<open>ErrNoRows\<close> is \<open>sql.ErrNoRows\<close>; \<open>ErrScanArgs\<close> is what \<open>Row.Scan()\<close> answers when it is
  called with no destination on a row that exists; \<open>ErrStore\<close> is any other error of the
  store (unreachable, constraint violated); \<open>ErrSyntax\<close> and \<open>ErrRange\<close> are those of
  \<open>strconv.Atoi\<close>; \<open>ErrTransport\<close> is a failed websocket or HTTP exchange.
\<close>

datatype error = ErrNoRows | ErrScanArgs | ErrStore string | ErrSyntax | ErrRange
  | ErrTransport string

text \<open>
  A Go function returns, panics (a nil dereference) or ends the process (\<open>log.Fatal\<close> calls
  \<open>os.Exit(1)\<close>). Each outcome carries the state reached (\<open>final\<close>), since frames already
  written to other clients stay written.
\<close>

datatype ('a, 's) outcome =
    is_Returns: Returns (result: 'a) (final: 's)
  | is_Panics: Panics (final: 's)
  | is_Exits: Exits (final: 's)

subsection \<open>The server's data\<close>

record Message =
  Sender :: "string option"
  Epoch :: "int option"
  MessageText :: "string option"
  RoomName :: "string option"

text \<open>
  A row of table \<open>Messages\<close>. \<open>UserID\<close> and \<open>RoomID\<close> are filled by scalar subqueries of the
  INSERT statement, which yield NULL when no user or room has the given name.
\<close>

record message_row =
  row_UserID :: "int option"
  row_Epoch :: int
  row_MessageText :: "string option"
  row_RoomID :: "int option"

text \<open>
  The store: tables \<open>Users (UserID, Name)\<close>, \<open>Rooms (RoomID, RoomName)\<close> and \<open>Messages\<close>, and
  how it answers: \<open>query_fault\<close> is the error of \<open>db.Query\<close>/\<open>db.QueryRow\<close>, \<open>exec_fault\<close> that of
  \<open>db.Exec\<close>, \<open>lastid_fault\<close> that of \<open>Result.LastInsertId\<close> (\<open>None\<close>: the call succeeds).
\<close>

record database =
  Users :: "(int \<times> string) list"
  Rooms :: "(int \<times> string) list"
  Messages :: "message_row list"
  query_fault :: "error option"
  exec_fault :: "error option"
  lastid_fault :: "error option"

type_synonym conn = nat

text \<open>
  The server's globals \<open>db\<close>, \<open>wsconns\<close> (\<open>map[int]*websocket.Conn\<close>) and \<open>activeRooms\<close>
  (\<open>map[int][]string\<close>), and the transports' side: \<open>pushed\<close> lists the frames written with
  success, in order, \<open>broken\<close> the connections on which \<open>WriteJSON\<close> fails.
\<close>

record server =
  db :: database
  wsconns :: "int \<rightharpoonup> conn"
  activeRooms :: "int \<rightharpoonup> string list"
  pushed :: "(conn \<times> Message) list"
  broken :: "conn list"

subsection \<open>Queries of the store\<close>

text \<open>\<open>SELECT RoomID FROM Rooms WHERE RoomName = ?\<close>, first row.\<close>

definition room_rows :: "database \<Rightarrow> string \<Rightarrow> (int \<times> string) list" where
  "room_rows d name = filter (\<lambda>r. snd r = name) (Rooms d)"

definition user_rows :: "database \<Rightarrow> string \<Rightarrow> (int \<times> string) list" where
  "user_rows d name = filter (\<lambda>u. snd u = name) (Users d)"

text \<open>
  \<open>getRoomID\<close> returns \<open>(-1, err)\<close> when the scan fails and \<open>(roomID, nil)\<close> otherwise.
\<close>

definition getRoomID :: "database \<Rightarrow> string \<Rightarrow> int \<times> error option" where
  "getRoomID d roomName =
     (case query_fault d of
        Some e \<Rightarrow> (- 1, Some e)
      | None \<Rightarrow>
          (case room_rows d roomName of
             [] \<Rightarrow> (- 1, Some ErrNoRows)
           | r # _ \<Rightarrow> (fst r, None)))"

text \<open>
  \<open>roomExists\<close> and \<open>userExists\<close> call \<open>row.Scan()\<close> with no destination and compare its error
  with \<open>sql.ErrNoRows\<close>: any other error, also a failure of the store, counts as "exists".
\<close>

definition scan_nothing :: "database \<Rightarrow> 'a list \<Rightarrow> error" where
  "scan_nothing d rows =
     (case query_fault d of
        Some e \<Rightarrow> e
      | None \<Rightarrow> (if rows = [] then ErrNoRows else ErrScanArgs))"

definition roomExists :: "database \<Rightarrow> string \<Rightarrow> bool" where
  "roomExists d name = (scan_nothing d (room_rows d name) \<noteq> ErrNoRows)"

definition userExists :: "database \<Rightarrow> string \<Rightarrow> bool" where
  "userExists d name = (scan_nothing d (user_rows d name) \<noteq> ErrNoRows)"

text \<open>
  The scalar subqueries of the INSERT into \<open>Messages\<close>: the id of the first user (room) with
  the given name, NULL when there is none or the parameter is nil.
\<close>

definition subselect_id :: "(int \<times> string) list \<Rightarrow> string option \<Rightarrow> int option" where
  "subselect_id table name =
     (case name of
        None \<Rightarrow> None
      | Some n \<Rightarrow> map_option fst (find (\<lambda>r. snd r = n) table))"

text \<open>
  \<open>INSERT INTO Messages (UserID, Epoch, MessageText, RoomID) VALUES ((SELECT UserID ...), ?, ?,
  (SELECT RoomID ...))\<close>, when the store accepts it.
\<close>

definition insert_message ::
  "database \<Rightarrow> string option \<Rightarrow> int \<Rightarrow> string option \<Rightarrow> string option \<Rightarrow> database" where
  "insert_message d sender epoch txt roomName =
     d\<lparr>Messages := Messages d @
        [\<lparr>row_UserID = subselect_id (Users d) sender, row_Epoch = epoch,
          row_MessageText = txt, row_RoomID = subselect_id (Rooms d) roomName\<rparr>]\<rparr>"

text \<open>
  The SELECT of \<open>getMessages\<close>, \<open>getMessagesAfter\<close> and \<open>socketHandler\<close>:
  \<open>SELECT Users.Name, Epoch, MessageText, Rooms.RoomName FROM Messages INNER JOIN Users ON
  Messages.UserID = Users.UserID INNER JOIN Rooms ON Messages.RoomID = Rooms.RoomID WHERE
  Rooms.RoomName = ? [AND Epoch >= ?]\<close>. \<open>row_messages\<close> is what one row of \<open>Messages\<close> gives:
  one \<open>Message\<close> for each user and room that the two joins pair it with (none for a row
  whose \<open>UserID\<close> or \<open>RoomID\<close> is NULL), scanned as \<open>rows.Scan\<close> does. The statement has no
  ORDER BY: the rows come in the order of table \<open>Messages\<close> (the scan order of the store).
  The condition on the epoch is the argument \<open>cond\<close>.
\<close>

definition row_messages :: "database \<Rightarrow> string \<Rightarrow> message_row \<Rightarrow> Message list" where
  "row_messages d roomName m =
     [\<lparr>Sender = Some (snd u), Epoch = Some (row_Epoch m),
       MessageText = row_MessageText m, RoomName = Some (snd r)\<rparr>.
        u \<leftarrow> Users d, row_UserID m = Some (fst u),
        r \<leftarrow> Rooms d, row_RoomID m = Some (fst r),
        snd r = roomName]"

definition select_messages :: "database \<Rightarrow> string \<Rightarrow> (int \<Rightarrow> bool) \<Rightarrow> Message list" where
  "select_messages d roomName cond =
     concat (map (row_messages d roomName) (filter (\<lambda>m. cond (row_Epoch m)) (Messages d)))"

definition getMessages :: "database \<Rightarrow> string \<Rightarrow> error + Message list" where
  "getMessages d roomName =
     (case query_fault d of
        Some e \<Rightarrow> Inl e
      | None \<Rightarrow> Inr (select_messages d roomName (\<lambda>_. True)))"

definition getMessagesAfter :: "database \<Rightarrow> string \<Rightarrow> int \<Rightarrow> error + Message list" where
  "getMessagesAfter d roomName epoch =
     (case query_fault d of
        Some e \<Rightarrow> Inl e
      | None \<Rightarrow> Inr (select_messages d roomName (\<lambda>e. epoch \<le> e)))"

subsection \<open>Posting a message\<close>

text \<open>\<open>sendHandler\<close>: \<open>c.WriteJSON(msg)\<close>; an error is logged and dropped.\<close>

definition sendHandler :: "conn \<Rightarrow> Message \<Rightarrow> server \<Rightarrow> server" where
  "sendHandler c msg s =
     (if c \<in> set (broken s) then s else s\<lparr>pushed := pushed s @ [(c, msg)]\<rparr>)"

text \<open>\<open>activeRooms[roomID]\<close>: the nil slice when the map has no entry.\<close>

definition members :: "server \<Rightarrow> int \<Rightarrow> string list" where
  "members s roomID = (case activeRooms s roomID of None \<Rightarrow> [] | Some xs \<Rightarrow> xs)"

text \<open>
  The loop \<open>for userID := range activeRooms[roomID]\<close>: a \<open>range\<close> with one variable over a
  slice yields the indices \<open>0 .. len-1\<close>, and \<open>wsconns[userID]\<close> is looked up at each index.
\<close>

definition send_if_connected :: "Message \<Rightarrow> int \<Rightarrow> server \<Rightarrow> server" where
  "send_if_connected msg userID s =
     (case wsconns s userID of Some c \<Rightarrow> sendHandler c msg s | None \<Rightarrow> s)"

definition fanout :: "int \<Rightarrow> Message \<Rightarrow> server \<Rightarrow> server" where
  "fanout roomID msg s =
     fold (send_if_connected msg) (map int [0..<length (members s roomID)]) s"

text \<open>
  \<open>postMessage\<close> of the server. \<open>*msg.RoomName\<close> and \<open>*msg.MessageText\<close> are dereferenced first
  (a panic when nil); the epoch is the clock's; the room is looked up and, when found, the
  message sent to the room; then the INSERT runs whatever the lookup gave. A failing
  \<open>db.Exec\<close> is \<open>log.Fatal\<close>; a failing \<open>LastInsertId\<close> is returned.
\<close>

definition postMessage :: "int \<Rightarrow> server \<Rightarrow> Message \<Rightarrow> (error option, server) outcome" where
  "postMessage now s msg =
     (case RoomName msg of
        None \<Rightarrow> Panics s
      | Some roomName \<Rightarrow>
          (case MessageText msg of
             None \<Rightarrow> Panics s
           | Some _ \<Rightarrow>
               (let epoch = now;
                    s1 = (case getRoomID (db s) roomName of
                            (_, Some err) \<Rightarrow> s
                          | (roomID, None) \<Rightarrow> fanout roomID msg s)
                in (case exec_fault (db s1) of
                      Some err \<Rightarrow> Exits s1
                    | None \<Rightarrow>
                        (let s2 = s1\<lparr>db := insert_message (db s1) (Sender msg) epoch
                                              (MessageText msg) (RoomName msg)\<rparr>
                         in (case lastid_fault (db s2) of
                               Some err \<Rightarrow> Returns (Some err) s2
                             | None \<Rightarrow> Returns None s2))))))"

text \<open>
  \<open>newMessageHandler\<close>: the body decoded (or not) into a \<open>Message\<close>, then \<open>postMessage\<close>; the
  reply is the HTTP status. A panic or exit of \<open>postMessage\<close> is the handler's.
\<close>

definition newMessageHandler ::
  "int \<Rightarrow> server \<Rightarrow> error + Message \<Rightarrow> (nat, server) outcome" where
  "newMessageHandler now s body =
     (case body of
        Inl err \<Rightarrow> Returns 400 s
      | Inr userReq \<Rightarrow>
          (case postMessage now s userReq of
             Returns (Some err) s' \<Rightarrow> Returns 400 s'
           | Returns None s' \<Rightarrow> Returns 200 s'
           | Panics s' \<Rightarrow> Panics s'
           | Exits s' \<Rightarrow> Exits s'))"

subsection \<open>Rooms: create, join, leave\<close>

text \<open>
  Modelled from the spec: the schema of table \<open>Rooms\<close> is not part of the sources. The spec
  says a room's name is globally unique and \<open>CreateRoom(name) -> id\<close> is idempotent, so
  \<open>INSERT OR IGNORE\<close> adds no row for a name that is there; a new row gets the next id
  after the largest one in the table.
\<close>

definition next_id :: "(int \<times> string) list \<Rightarrow> int" where
  "next_id table = fold max (map fst table) 0 + 1"

definition createRoom :: "database \<Rightarrow> string \<Rightarrow> database \<times> error option" where
  "createRoom d name =
     (case exec_fault d of
        Some err \<Rightarrow> (d, Some err)
      | None \<Rightarrow>
          (if name \<in> snd ` set (Rooms d) then (d, None)
           else (d\<lparr>Rooms := Rooms d @ [(next_id (Rooms d), name)]\<rparr>, None)))"

text \<open>
  A handler's reply is the list of status codes it passed to \<open>http.Error\<close>, in order; the
  status the client sees is the first one, or 200 when the handler wrote none.
\<close>

definition status_of :: "nat list \<Rightarrow> nat" where
  "status_of codes = (case codes of [] \<Rightarrow> 200 | c # _ \<Rightarrow> c)"

text \<open>
  \<open>joinRoomHandler\<close>, with the headers \<open>User-Name\<close> and \<open>Room-Name\<close> as arguments. A failing
  \<open>createRoom\<close> writes a 400 and goes on; a failing \<open>getRoomID\<close> writes a 400 and returns.
  The user is appended to the room's slice with no look at what the slice holds.
\<close>

definition joinRoomHandler :: "server \<Rightarrow> string \<Rightarrow> string \<Rightarrow> nat list \<times> server" where
  "joinRoomHandler s user room =
     (if \<not> userExists (db s) user then ([400], s)
      else
        (let (codes, s1) =
               (if \<not> roomExists (db s) room then
                  (case createRoom (db s) room of
                     (d', Some err) \<Rightarrow> ([400], s\<lparr>db := d'\<rparr>)
                   | (d', None) \<Rightarrow> ([], s\<lparr>db := d'\<rparr>))
                else ([], s))
         in (case getRoomID (db s1) room of
               (_, Some err) \<Rightarrow> (codes @ [400], s1)
             | (roomID, None) \<Rightarrow>
                 (let s2 = (if activeRooms s1 roomID = None
                            then s1\<lparr>activeRooms := (activeRooms s1)(roomID \<mapsto> [])\<rparr>
                            else s1)
                  in (codes,
                      s2\<lparr>activeRooms :=
                           (activeRooms s2)(roomID \<mapsto> members s2 roomID @ [user])\<rparr>)))))"

text \<open>
  \<open>remove\<close> writes into the slice it is given: \<open>s[i] = s[len(s)-1]; s[len(s)-1] = ""\<close>, and
  returns the shorter slice \<open>s[:len(s)-1]\<close>. The slice shares its array with the one stored
  in \<open>activeRooms\<close>, so the two writes are seen there; \<open>remove_array\<close> is the array after the
  call and \<open>remove\<close> the slice returned.
\<close>

definition remove_array :: "string list \<Rightarrow> nat \<Rightarrow> string list" where
  "remove_array s i = (s[i := s ! (length s - 1)])[length s - 1 := []]"

definition remove :: "string list \<Rightarrow> nat \<Rightarrow> string list" where
  "remove s i = take (length s - 1) (remove_array s i)"

text \<open>
  The loop of \<open>leaveRoomHandler\<close>: \<open>for i, userName := range activeRooms[roomID]\<close> fixes the
  slice (its length) once and reads element \<open>i\<close> of the shared array at each step;
  \<open>remove(activeRooms[roomID], i)\<close> is called for its writes, its result is dropped, so the
  stored slice keeps its length.
\<close>

fun leave_loop :: "string \<Rightarrow> nat list \<Rightarrow> string list \<Rightarrow> string list" where
  "leave_loop user [] xs = xs"
| "leave_loop user (i # rest) xs =
     leave_loop user rest (if xs ! i = user then remove_array xs i else xs)"

text \<open>
  \<open>leaveRoomHandler\<close>: an unknown user is a 400 and a return; a failing \<open>getRoomID\<close> is a 400
  but the handler goes on with the \<open>roomID\<close> it got (\<open>-1\<close>).
\<close>

definition leaveRoomHandler :: "server \<Rightarrow> string \<Rightarrow> string \<Rightarrow> nat list \<times> server" where
  "leaveRoomHandler s user room =
     (if \<not> userExists (db s) user then ([400], s)
      else
        (let (roomID, err) = getRoomID (db s) room;
             codes = (case err of Some e \<Rightarrow> [400] | None \<Rightarrow> [])
         in (case activeRooms s roomID of
               None \<Rightarrow> (codes, s)
             | Some xs \<Rightarrow>
                 (codes,
                  s\<lparr>activeRooms :=
                      (activeRooms s)(roomID \<mapsto> leave_loop user [0..<length xs] xs)\<rparr>))))"

text \<open>
  \<open>MembersOf(room)\<close> of the spec, read off the server's state: the slice stored for the
  room's id, empty when the room is unknown.
\<close>

definition MembersOf :: "server \<Rightarrow> string \<Rightarrow> string list" where
  "MembersOf s room =
     (case getRoomID (db s) room of
        (_, Some err) \<Rightarrow> []
      | (roomID, None) \<Rightarrow> members s roomID)"

subsection \<open>Connecting a websocket\<close>





subsection \<open>The server's routes\<close>

text \<open>
  The routes \<open>main\<close> registers on the gorilla/mux router, in order, with the method each is
  restricted to (\<open>None\<close>: any). The router is used with its defaults (no \<open>StrictSlash\<close>): a
  path matches a template segment by segment, a \<open>{name}\<close> segment matching any non-empty
  segment, so a path with one more (empty) segment after a trailing slash matches no
  template written without it.
\<close>

datatype endpoint = StatusCheck | NewRoom | SocketConnect | JoinRoom | LeaveRoom
  | PostMsg | ChatRoom | NewUser

definition routes :: "(string \<times> string option \<times> endpoint) list" where
  "routes =
     [(''/status'', None, StatusCheck),
      (''/chat/room/new'', Some ''POST'', NewRoom),
      (''/chat/sockets/connect'', None, SocketConnect),
      (''/chat/room/join'', Some ''POST'', JoinRoom),
      (''/chat/room/leave'', Some ''DELETE'', LeaveRoom),
      (''/chat/postmsg'', Some ''POST'', PostMsg),
      (''/chat/room/{room}'', Some ''GET'', ChatRoom),
      (''/chat/user/new'', Some ''POST'', NewUser)]"

fun segments :: "string \<Rightarrow> string \<Rightarrow> string list" where
  "segments cur [] = [rev cur]"
| "segments cur (c # cs) =
     (if c = CHR ''/'' then rev cur # segments [] cs else segments (c # cur) cs)"

definition segment_matches :: "string \<Rightarrow> string \<Rightarrow> bool" where
  "segment_matches tmpl seg =
     (if tmpl \<noteq> [] \<and> hd tmpl = CHR ''{'' \<and> last tmpl = CHR ''}'' then seg \<noteq> []
      else tmpl = seg)"

definition path_matches :: "string \<Rightarrow> string \<Rightarrow> bool" where
  "path_matches tmpl path = list_all2 segment_matches (segments [] tmpl) (segments [] path)"

definition route_of :: "string \<Rightarrow> string \<Rightarrow> endpoint option" where
  "route_of meth path =
     map_option (\<lambda>r. snd (snd r))
       (find (\<lambda>r. path_matches (fst r) path \<and>
                  (case fst (snd r) of None \<Rightarrow> True | Some m \<Rightarrow> m = meth))
          routes)"

subsection \<open>The console client\<close>

text \<open>
  The client's \<open>Room\<close>, and its globals: \<open>userInfo.Name\<close>, \<open>lastActiveRoom\<close> and \<open>activeRooms\<close>
  (\<open>clientRooms\<close> here, the server has a global of the same name), and \<open>isConnected\<close>,
  which \<open>main\<close> sets once, from the result of the websocket dial: when the dial failed
  \<open>isConnected\<close> is false and \<open>wsconn\<close> is nil. The transports' side: \<open>ws_fault\<close> is the error
  of \<open>wsconn.WriteJSON\<close> on a dialled connection, \<open>http_fault\<close> that of the HTTP client
  (\<open>None\<close>: the exchange succeeds), \<open>ws_sent\<close> the frames written to the websocket and
  \<open>requests\<close> the HTTP requests sent, in order.
\<close>

record Room =
  roomName :: string
  lastUpdate :: int

record http_request =
  req_method :: string
  req_url :: string
  req_headers :: "(string \<times> string) list"
  req_body :: "Message option"

record client =
  userName :: "string option"
  lastActiveRoom :: string
  clientRooms :: "Room list"
  isConnected :: bool
  ws_fault :: "error option"
  http_fault :: "error option"
  ws_sent :: "Message list"
  requests :: "http_request list"

definition url :: string where
  "url = ''http://localhost:8080''"

text \<open>
  The client's \<open>postMessage\<close>: the message is written to the websocket; only when that write
  fails it is posted over HTTP, to \<open>url + "/chat/postmsg/"\<close>. A failure of the HTTP exchange
  is \<open>log.Fatal\<close>; the response and its status are dropped. On the nil \<open>wsconn\<close> of a client
  whose dial failed, \<open>WriteJSON\<close> dereferences nil and panics.
\<close>

definition client_postMessage :: "client \<Rightarrow> string \<Rightarrow> string \<Rightarrow> (unit, client) outcome" where
  "client_postMessage c room message =
     (let room' = (if room = [] then lastActiveRoom c else room);
          postURL = url @ ''/chat/postmsg/'';
          msg = \<lparr>Sender = userName c, Epoch = None, MessageText = Some message,
                 RoomName = Some room'\<rparr>
      in if \<not> isConnected c then Panics c
         else
           (case ws_fault c of
              None \<Rightarrow> Returns () (c\<lparr>ws_sent := ws_sent c @ [msg]\<rparr>)
            | Some err \<Rightarrow>
                (case http_fault c of
                   Some err' \<Rightarrow> Exits c
                 | None \<Rightarrow>
                     Returns ()
                       (c\<lparr>requests := requests c @
                           [\<lparr>req_method = ''POST'', req_url = postURL, req_headers = [],
                             req_body = Some msg\<rparr>]\<rparr>))))"

text \<open>
  The client's \<open>joinRoom\<close>; \<open>status\<close> is the status code of the server's response. On
  success the room is appended with \<open>lastUpdate = time.Now().Unix() - 3600\<close>.
\<close>

definition joinRoom :: "int \<Rightarrow> nat \<Rightarrow> client \<Rightarrow> string \<Rightarrow> (unit, client) outcome" where
  "joinRoom now status c name =
     (case userName c of
        None \<Rightarrow> Panics c
      | Some user \<Rightarrow>
          (case http_fault c of
             Some err \<Rightarrow> Returns () c
           | None \<Rightarrow>
               (let c1 = c\<lparr>requests := requests c @
                           [\<lparr>req_method = ''POST'', req_url = url @ ''/chat/room/join'',
                             req_headers = [(''User-Name'', user), (''Room-Name'', name)],
                             req_body = None\<rparr>]\<rparr>
                in if status = 400 then Returns () c1
                   else Returns ()
                          (c1\<lparr>lastActiveRoom := name,
                              clientRooms := clientRooms c1 @
                                [\<lparr>roomName = name, lastUpdate = now - 3600\<rparr>]\<rparr>))))"

text \<open>\<open>fmt.Sprintf("%d", n)\<close>.\<close>

fun decimal :: "nat \<Rightarrow> string" where
  "decimal n =
     (if n < 10 then [''0123456789'' ! n]
      else decimal (n div 10) @ [''0123456789'' ! (n mod 10)])"

declare decimal.simps [simp del]

definition Sprintf_d :: "int \<Rightarrow> string" where
  "Sprintf_d n = (if n < 0 then CHR ''-'' # decimal (nat (- n)) else decimal (nat n))"

text \<open>
  The client's \<open>getMessages\<close>: a GET of the URL; a failed exchange is \<open>log.Fatal\<close>. The
  messages of the response are printed, which changes nothing the client keeps.
\<close>

definition client_getMessages :: "string \<Rightarrow> client \<Rightarrow> (unit, client) outcome" where
  "client_getMessages u c =
     (case http_fault c of
        Some err \<Rightarrow> Exits c
      | None \<Rightarrow>
          Returns ()
            (c\<lparr>requests := requests c @
                [\<lparr>req_method = ''GET'', req_url = u, req_headers = [], req_body = None\<rparr>]\<rparr>))"

text \<open>
  One pass of the inner loop of \<open>updateMessages\<close> over the indices of \<open>activeRooms\<close>:
  \<open>room := (*activeRooms)[i]\<close> copies the struct, the URL is built from the copy,
  \<open>room.lastUpdate = time.Now().Unix()\<close> assigns to the copy, and the copy is dropped at the
  end of the step.
\<close>

fun poll_rooms :: "int \<Rightarrow> nat list \<Rightarrow> client \<Rightarrow> (unit, client) outcome" where
  "poll_rooms now [] c = Returns () c"
| "poll_rooms now (i # rest) c =
     (let room = clientRooms c ! i;
          requestURL = url @ ''/chat/room/'' @ roomName room @ ''?message-start-time=''
                         @ Sprintf_d (lastUpdate room);
          room = room\<lparr>lastUpdate := now\<rparr>
      in (case client_getMessages requestURL c of
            Returns u c' \<Rightarrow> poll_rooms now rest c'
          | Panics c' \<Rightarrow> Panics c'
          | Exits c' \<Rightarrow> Exits c'))"

text \<open>
  \<open>updateMessages\<close> loops for ever: a pass over the rooms, then a sleep of five seconds. The
  model runs one pass per clock reading it is given and returns the state after the last
  of them (the loop itself never returns).
\<close>

fun updateMessages :: "int list \<Rightarrow> client \<Rightarrow> (unit, client) outcome" where
  "updateMessages [] c = Returns () c"
| "updateMessages (now # later) c =
     (case poll_rooms now [0..<length (clientRooms c)] c of
        Returns u c' \<Rightarrow> updateMessages later c'
      | Panics c' \<Rightarrow> Panics c'
      | Exits c' \<Rightarrow> Exits c')"

subsection \<open>What a post writes to the transports\<close>

text \<open>
  The frames the broadcast loop of \<open>postMessage\<close> writes for a room name, read off the
  state before the call: none when the room's id is not found; otherwise one for each index
  \<open>i\<close> of the room's slice such that \<open>wsconns\<close> has a connection under the key \<open>i\<close> on which
  writing succeeds.
\<close>

definition frames_for :: "server \<Rightarrow> string \<Rightarrow> Message \<Rightarrow> (conn \<times> Message) list" where
  "frames_for s room msg =
     (case getRoomID (db s) room of
        (_, Some err) \<Rightarrow> []
      | (roomID, None) \<Rightarrow>
          [(c, msg).
             i \<leftarrow> [0..<length (members s roomID)],
             c \<leftarrow> (case wsconns s (int i) of None \<Rightarrow> [] | Some c \<Rightarrow> [c]),
             c \<notin> set (broken s)])"

text \<open>The epochs of a list of messages, in order.\<close>

definition epochs :: "Message list \<Rightarrow> int list" where
  "epochs ms = concat (map (\<lambda>m. case Epoch m of None \<Rightarrow> [] | Some e \<Rightarrow> [e]) ms)"

subsection \<open>The persisted messages of a room\<close>

text \<open>
  What the spec calls the persisted messages of a room, read off the tables: a stored row
  belongs to the room whose id it holds; its sender is the user whose id it holds, if the
  row holds one and the user is in table \<open>Users\<close>. \<open>message_of\<close> is the row as a \<open>Message\<close>.
\<close>

definition sender_name :: "database \<Rightarrow> message_row \<Rightarrow> string option" where
  "sender_name d m = (case row_UserID m of None \<Rightarrow> None | Some i \<Rightarrow> map_of (Users d) i)"

definition room_name :: "database \<Rightarrow> message_row \<Rightarrow> string option" where
  "room_name d m = (case row_RoomID m of None \<Rightarrow> None | Some i \<Rightarrow> map_of (Rooms d) i)"

definition message_of :: "database \<Rightarrow> message_row \<Rightarrow> Message" where
  "message_of d m =
     \<lparr>Sender = sender_name d m, Epoch = Some (row_Epoch m),
      MessageText = row_MessageText m, RoomName = room_name d m\<rparr>"

subsection \<open>Example states\<close>

text \<open>
  A store with the users alice (id 1) and bob (id 2) and the room general (id 1), no
  message, and no failure; a server on it with nobody connected and nobody joined.
\<close>

definition db0 :: database where
  "db0 = \<lparr>Users = [(1, ''alice''), (2, ''bob'')], Rooms = [(1, ''general'')], Messages = [],
          query_fault = None, exec_fault = None, lastid_fault = None\<rparr>"

definition srv0 :: server where
  "srv0 = \<lparr>db = db0, wsconns = Map.empty, activeRooms = Map.empty, pushed = [], broken = []\<rparr>"

text \<open>
  Alice and bob have both joined general and both hold an open websocket, alice's
  (connection 11) registered under her id 1 and bob's (connection 12) under his id 2.
\<close>

definition srv_two :: server where
  "srv_two = srv0\<lparr>wsconns := [1 \<mapsto> 11, 2 \<mapsto> 12],
                   activeRooms := [1 \<mapsto> [''alice'', ''bob'']]\<rparr>"

text \<open>The same server when the store rejects every \<open>db.Exec\<close>.\<close>

definition srv_exec_down :: server where
  "srv_exec_down = srv_two\<lparr>db := db0\<lparr>exec_fault := Some (ErrStore ''database is locked'')\<rparr>\<rparr>"

definition hello :: "string \<Rightarrow> Message" where
  "hello room = \<lparr>Sender = Some ''alice'', Epoch = None, MessageText = Some ''hello'',
                 RoomName = Some room\<rparr>"

text \<open>
  The store after three posts to general: two by alice, taken at the clock readings 10 and
  then 5 (the wall clock was set back between them), and one at 20 whose sender, mallory,
  is not in table \<open>Users\<close>.
\<close>

definition srv_clock_back :: server where
  "srv_clock_back =
     final (postMessage 5 (final (postMessage 10 srv0 (hello ''general''))) (hello ''general''))"

definition db_clock_back :: database where
  "db_clock_back =
     db (final (postMessage 20 srv_clock_back ((hello ''general'')\<lparr>Sender := Some ''mallory''\<rparr>)))"

text \<open>Alice joins general twice.\<close>

definition srv_joined_twice :: server where
  "srv_joined_twice =
     snd (joinRoomHandler (snd (joinRoomHandler srv0 ''alice'' ''general'')) ''alice'' ''general'')"

text \<open>
  A client named alice that dialled its websocket, on which writing now fails, while the
  HTTP transport works, active in room general; and the same client after it joined
  general at clock reading 5000.
\<close>

definition client0 :: client where
  "client0 = \<lparr>userName = Some ''alice'', lastActiveRoom = ''general'', clientRooms = [],
              isConnected = True, ws_fault = Some (ErrTransport ''broken pipe''), http_fault = None,
              ws_sent = [], requests = []\<rparr>"

definition client_joined :: client where
  "client_joined = (final (joinRoom 5000 200 client0 ''general''))\<lparr>requests := []\<rparr>"

text \<open>
  The store after two posts to general taken at the clock readings 10 and then 20.
\<close>

definition db_two_posts :: database where
  "db_two_posts = db (final (postMessage 20 (final (postMessage 10 srv0 (hello ''general'')))
                                (hello ''general'')))"


section \<open>Properties\<close>

subsection \<open>Helper lemmas: the broadcast loop and the store\<close>

lemmas example_defs = db0_def srv0_def srv_two_def srv_exec_down_def hello_def

lemmas store_defs = getRoomID_def room_rows_def user_rows_def scan_nothing_def
  roomExists_def userExists_def subselect_id_def insert_message_def members_def

lemmas post_defs = postMessage_def fanout_def send_if_connected_def sendHandler_def
  newMessageHandler_def

lemma fold_send_if_connected:
  "fold (send_if_connected msg) ids s =
     s\<lparr>pushed := pushed s @
        [(c, msg). i \<leftarrow> ids, c \<leftarrow> (case wsconns s i of None \<Rightarrow> [] | Some c \<Rightarrow> [c]),
                   c \<notin> set (broken s)]\<rparr>"
  by (induction ids arbitrary: s)
     (simp_all add: send_if_connected_def sendHandler_def split: option.splits)

lemma fanout_eq:
  "fanout roomID msg s =
     s\<lparr>pushed := pushed s @
        [(c, msg). i \<leftarrow> [0..<length (members s roomID)],
                   c \<leftarrow> (case wsconns s (int i) of None \<Rightarrow> [] | Some c \<Rightarrow> [c]),
                   c \<notin> set (broken s)]\<rparr>"
  by (simp add: fanout_def fold_send_if_connected map_concat comp_def)


lemma broadcast_state:
  "(case getRoomID (db s) r of (_, Some err) \<Rightarrow> s | (roomID, None) \<Rightarrow> fanout roomID msg s)
     = s\<lparr>pushed := pushed s @ frames_for s r msg\<rparr>"
  by (simp add: frames_for_def fanout_eq split: prod.splits option.splits)

text \<open>
  \<open>postMessage\<close> in one equation: the frames go out first, whatever the store does next;
  the INSERT takes its epoch from the clock.
\<close>

lemma postMessage_eq:
  assumes "RoomName msg = Some r" "MessageText msg = Some t"
  shows "postMessage now s msg =
     (let s1 = s\<lparr>pushed := pushed s @ frames_for s r msg\<rparr> in
      case exec_fault (db s) of
        Some err \<Rightarrow> Exits s1
      | None \<Rightarrow>
          (let s2 = s1\<lparr>db := insert_message (db s) (Sender msg) now (MessageText msg)
                                (RoomName msg)\<rparr>
           in Returns (lastid_fault (db s)) s2))"
  using assms
  by (simp add: postMessage_def broadcast_state Let_def insert_message_def split: option.splits)

subsection \<open>Posting to a room that does not exist\<close>

text \<open>
  Claim C1: a post whose room name names no room fails with InvalidRoom, appends no row to
  table \<open>Messages\<close> and broadcasts nothing. The code does not do this. On the server where
  alice and bob are joined and connected, a post by alice to the room \<open>nope\<close>, which is not
  in table \<open>Rooms\<close>, at clock reading 1000: \<open>getRoomID\<close> fails, the error is logged and
  nothing is broadcast, but the INSERT runs all the same; \<open>postMessage\<close> returns nil, the
  HTTP handler answers 200, and table \<open>Messages\<close> has a new row whose \<open>RoomID\<close> is NULL.
\<close>

theorem postMessage_unknown_room_inserts:
  "fst (getRoomID (db srv_two) ''nope'') = - 1
   \<and> snd (getRoomID (db srv_two) ''nope'') = Some ErrNoRows
   \<and> is_Returns (postMessage 1000 srv_two (hello ''nope''))
   \<and> result (postMessage 1000 srv_two (hello ''nope'')) = None
   \<and> result (newMessageHandler 1000 srv_two (Inr (hello ''nope''))) = 200
   \<and> Messages (db (final (postMessage 1000 srv_two (hello ''nope'')))) =
        [\<lparr>row_UserID = Some 1, row_Epoch = 1000, row_MessageText = Some ''hello'',
          row_RoomID = None\<rparr>]
   \<and> pushed (final (postMessage 1000 srv_two (hello ''nope''))) = []"
  by (simp add: example_defs store_defs post_defs)

subsection \<open>Who receives a post\<close>

text \<open>
  Claim C2: every member of the room who has a live transport registered under their user
  id receives the message within the same \<open>postMessage\<close> call. The code does not do this:
  the broadcast loop ranges over the indices of the member slice and looks each index up
  in \<open>wsconns\<close> as if it were a user id. With alice (id 1, connection 11) and bob (id 2,
  connection 12) both joined to general and both connected, a post to general looks up the
  keys 0 and 1: one frame goes to connection 11 (key 1) and none to bob's connection 12,
  although bob is a member with a registered transport.
\<close>

theorem postMessage_looks_up_slice_indices:
  "''bob'' \<in> set (MembersOf srv_two ''general'')
   \<and> (2, ''bob'') \<in> set (Users (db srv_two))
   \<and> wsconns srv_two 2 = Some 12
   \<and> 12 \<notin> set (broken srv_two)
   \<and> is_Returns (postMessage 1000 srv_two (hello ''general''))
   \<and> pushed (final (postMessage 1000 srv_two (hello ''general''))) =
        [(11, hello ''general'')]"
  by (simp add: example_defs store_defs post_defs MembersOf_def upt_rec)

subsection \<open>Leaving a room\<close>

text \<open>The stored slice never gets shorter: \<open>remove\<close>'s result is dropped.\<close>

lemma length_remove_array: "length (remove_array xs i) = length xs"
  by (simp add: remove_array_def)

lemma length_leave_loop: "length (leave_loop user ids xs) = length xs"
  by (induction ids arbitrary: xs) (simp_all add: length_remove_array)

text \<open>
  Claim C3: after Leave(r, u) the user u is absent from the members of r, and Leave by a
  non-member is a no-op without error. The code does not do the first when u is listed
  more than once: \<open>remove\<close> copies the last element over the one found and blanks the last
  slot, its shortened result is dropped, and the loop goes on over the same array. After
  alice joined general twice the slice is \<open>[alice, alice]\<close>; her Leave is answered without
  error and leaves \<open>[alice, ""]\<close>: alice is still a member, next to an entry for the empty
  name.
\<close>

theorem leave_keeps_member_joined_twice:
  "MembersOf srv_joined_twice ''general'' = [''alice'', ''alice'']
   \<and> status_of (fst (leaveRoomHandler srv_joined_twice ''alice'' ''general'')) = 200
   \<and> MembersOf (snd (leaveRoomHandler srv_joined_twice ''alice'' ''general'')) ''general''
        = [''alice'', []]
   \<and> ''alice'' \<in> set (MembersOf (snd (leaveRoomHandler srv_joined_twice ''alice'' ''general''))
                         ''general'')"
  by (simp add: srv_joined_twice_def joinRoomHandler_def leaveRoomHandler_def createRoom_def
        example_defs store_defs MembersOf_def remove_array_def status_of_def upt_rec)

subsection \<open>Joining a room twice\<close>

lemma join_known_room:
  assumes "userExists (db s) u" "getRoomID (db s) r = (rid, None)"
  shows "joinRoomHandler s u r =
           ([], s\<lparr>activeRooms := (activeRooms s)(rid \<mapsto> members s rid @ [u])\<rparr>)"
  using assms
  by (auto simp: joinRoomHandler_def getRoomID_def roomExists_def scan_nothing_def members_def
           split: option.splits list.splits if_splits)

lemma getRoomID_created:
  assumes "query_fault d = None" "exec_fault d = None" "room_rows d r = []"
  shows "getRoomID (fst (createRoom d r)) r = (next_id (Rooms d), None)"
    and "snd (createRoom d r) = None"
    and "fst (createRoom d r) = d\<lparr>Rooms := Rooms d @ [(next_id (Rooms d), r)]\<rparr>"
  using assms
  by (auto simp: createRoom_def getRoomID_def room_rows_def filter_empty_conv image_iff
           split: list.splits)

lemma join_new_room:
  assumes "userExists (db s) u" "query_fault (db s) = None" "exec_fault (db s) = None"
    "room_rows (db s) r = []"
  shows "joinRoomHandler s u r =
           ([], s\<lparr>db := (db s)\<lparr>Rooms := Rooms (db s) @ [(next_id (Rooms (db s)), r)]\<rparr>,
                  activeRooms := (activeRooms s)(next_id (Rooms (db s)) \<mapsto>
                       members s (next_id (Rooms (db s))) @ [u])\<rparr>)"
  using assms getRoomID_created [of "db s" r]
  by (auto simp: joinRoomHandler_def roomExists_def scan_nothing_def members_def
           split: option.splits prod.splits)

text \<open>
  Claim C4, as stated: Join twice with the same room and user leaves the user in the
  member list exactly once. It fails: alice joins general twice on the example server and
  is listed twice.
\<close>

theorem join_twice_counterexample:
  "MembersOf srv_joined_twice ''general'' = [''alice'', ''alice'']
   \<and> count_list (MembersOf srv_joined_twice ''general'') ''alice'' = 2"
  by (simp add: srv_joined_twice_def joinRoomHandler_def createRoom_def example_defs
        store_defs MembersOf_def)

text \<open>
  Claim C4, amended: the member list is a slice and Join appends to it without looking. For
  a known user on a working store, with \<open>d'\<close> the store after the room was created if it
  was not there, \<open>rid\<close> the room's id and \<open>before\<close> the slice stored under that id before the
  calls: both calls are answered without error; the first changes the state in nothing
  but the new room row and the room's slice, which becomes \<open>before @ [u]\<close>; the second
  leaves the slice \<open>before @ [u, u]\<close> and everything else as the first left it. For a room
  that was there, \<open>before\<close> is the room's member list before the calls.
\<close>

theorem join_twice_appends_twice:
  assumes "userExists (db s) u" "query_fault (db s) = None" "exec_fault (db s) = None"
  shows "let d' = (if room_rows (db s) r = []
                   then (db s)\<lparr>Rooms := Rooms (db s) @ [(next_id (Rooms (db s)), r)]\<rparr>
                   else db s);
             rid = fst (getRoomID d' r);
             before = members s rid
         in snd (getRoomID d' r) = None
          \<and> joinRoomHandler s u r =
               ([], s\<lparr>db := d', activeRooms := (activeRooms s)(rid \<mapsto> before @ [u])\<rparr>)
          \<and> joinRoomHandler (snd (joinRoomHandler s u r)) u r =
               ([], s\<lparr>db := d', activeRooms := (activeRooms s)(rid \<mapsto> before @ [u, u])\<rparr>)
          \<and> MembersOf (snd (joinRoomHandler s u r)) r = before @ [u]
          \<and> MembersOf (snd (joinRoomHandler (snd (joinRoomHandler s u r)) u r)) r
               = before @ [u, u]
          \<and> (room_rows (db s) r \<noteq> [] \<longrightarrow> before = MembersOf s r)"
proof (cases "room_rows (db s) r = []")
  case True
  let ?d = "(db s)\<lparr>Rooms := Rooms (db s) @ [(next_id (Rooms (db s)), r)]\<rparr>"
  let ?rid = "next_id (Rooms (db s))"
  let ?s1 = "s\<lparr>db := ?d, activeRooms := (activeRooms s)(?rid \<mapsto> members s ?rid @ [u])\<rparr>"
  have g: "getRoomID ?d r = (?rid, None)"
    using getRoomID_created [OF assms(2,3) True] by simp
  have j1: "joinRoomHandler s u r = ([], ?s1)"
    by (rule join_new_room [OF assms True])
  have u1: "userExists (db ?s1) u"
    using assms(1,2) by (simp add: userExists_def user_rows_def scan_nothing_def)
  have j2: "joinRoomHandler ?s1 u r =
      ([], ?s1\<lparr>activeRooms := (activeRooms ?s1)(?rid \<mapsto> members ?s1 ?rid @ [u])\<rparr>)"
    by (rule join_known_room [OF u1]) (simp add: g)
  have m: "members ?s1 ?rid = members s ?rid @ [u]"
    by (simp add: members_def)
  show ?thesis
    using True by (simp add: Let_def g j1 j2 m MembersOf_def) (simp add: members_def)
next
  case False
  then obtain rid where g: "getRoomID (db s) r = (rid, None)"
    using assms(2) by (cases "room_rows (db s) r") (auto simp: getRoomID_def)
  let ?s1 = "s\<lparr>activeRooms := (activeRooms s)(rid \<mapsto> members s rid @ [u])\<rparr>"
  have j1: "joinRoomHandler s u r = ([], ?s1)"
    by (rule join_known_room [OF assms(1) g])
  have j2: "joinRoomHandler ?s1 u r =
      ([], ?s1\<lparr>activeRooms := (activeRooms ?s1)(rid \<mapsto> members ?s1 rid @ [u])\<rparr>)"
    by (rule join_known_room) (simp_all add: assms(1) g)
  have m: "members ?s1 rid = members s rid @ [u]"
    by (simp add: members_def)
  show ?thesis
    using False by (simp add: Let_def g j1 j2 m MembersOf_def) (simp add: members_def)
qed

theorem join_twice_appends_twice_witness:
  "userExists (db srv_two) ''bob'' \<and> query_fault (db srv_two) = None
   \<and> exec_fault (db srv_two) = None
   \<and> room_rows (db srv_two) ''general'' \<noteq> []
   \<and> MembersOf srv_two ''general'' = [''alice'', ''bob'']
   \<and> fst (joinRoomHandler srv_two ''bob'' ''general'') = []
   \<and> MembersOf (snd (joinRoomHandler srv_two ''bob'' ''general'')) ''general''
       = [''alice'', ''bob'', ''bob'']
   \<and> fst (joinRoomHandler (snd (joinRoomHandler srv_two ''bob'' ''general''))
            ''bob'' ''general'') = []
   \<and> MembersOf (snd (joinRoomHandler (snd (joinRoomHandler srv_two ''bob'' ''general''))
                        ''bob'' ''general'')) ''general''
       = [''alice'', ''bob'', ''bob'', ''bob'']"
proof -
  have h1: "userExists (db srv_two) ''bob''"
    by (simp add: example_defs store_defs)
  have h2: "query_fault (db srv_two) = None" and h3: "exec_fault (db srv_two) = None"
    by (simp_all add: example_defs)
  have r: "room_rows (db srv_two) ''general'' \<noteq> []"
    by (simp add: example_defs store_defs)
  have m: "MembersOf srv_two ''general'' = [''alice'', ''bob'']"
    by (simp add: example_defs store_defs MembersOf_def)
  note t = join_twice_appends_twice [OF h1 h2 h3, of "''general''", unfolded Let_def]
  note t1 = t [THEN conjunct2, THEN conjunct1]
  note t2 = t [THEN conjunct2, THEN conjunct2, THEN conjunct1]
  note t3 = t [THEN conjunct2, THEN conjunct2, THEN conjunct2, THEN conjunct1]
  note t4 = t [THEN conjunct2, THEN conjunct2, THEN conjunct2, THEN conjunct2, THEN conjunct1]
  note t5 = t [THEN conjunct2, THEN conjunct2, THEN conjunct2, THEN conjunct2, THEN conjunct2,
               THEN mp, OF r]
  have a: "fst (joinRoomHandler srv_two ''bob'' ''general'') = []"
    by (simp add: t1)
  have b: "MembersOf (snd (joinRoomHandler srv_two ''bob'' ''general'')) ''general''
       = [''alice'', ''bob'', ''bob'']"
    unfolding t3 t5 m by simp
  have c: "fst (joinRoomHandler (snd (joinRoomHandler srv_two ''bob'' ''general''))
            ''bob'' ''general'') = []"
    by (simp add: t2)
  have d: "MembersOf (snd (joinRoomHandler (snd (joinRoomHandler srv_two ''bob'' ''general''))
                        ''bob'' ''general'')) ''general''
       = [''alice'', ''bob'', ''bob'', ''bob'']"
    unfolding t4 t5 m by simp
  from h1 h2 h3 r m a b c d show ?thesis by blast
qed

subsection \<open>A failing store\<close>

text \<open>
  The broadcast comes first in \<open>postMessage\<close>: the frames for the room are written whatever
  the store answers afterwards. Every failing \<open>db.Exec\<close> ends the process, and an error of
  \<open>LastInsertId\<close> is returned.
\<close>

lemma postMessage_pushes_first:
  assumes "RoomName msg = Some r" "MessageText msg = Some t"
  shows "pushed (final (postMessage now s msg)) = pushed s @ frames_for s r msg"
  using assms by (simp add: postMessage_eq Let_def split: option.splits)

lemma postMessage_exec_failure:
  assumes "RoomName msg = Some r" "MessageText msg = Some t" "exec_fault (db s) = Some e"
  shows "postMessage now s msg = Exits (s\<lparr>pushed := pushed s @ frames_for s r msg\<rparr>)"
  using assms by (simp add: postMessage_eq Let_def)

lemma postMessage_lastid_failure:
  assumes "RoomName msg = Some r" "MessageText msg = Some t"
    and "exec_fault (db s) = None" "lastid_fault (db s) = Some e"
  shows "is_Returns (postMessage now s msg)
       \<and> result (postMessage now s msg) = Some e
       \<and> result (newMessageHandler now s (Inr msg)) = 400"
  using assms by (simp add: postMessage_eq newMessageHandler_def Let_def)

text \<open>
  Claim C5: when the persistence step of \<open>postMessage\<close> fails, the failure is returned to the
  caller as an error, the broadcast is aborted and the process does not crash. The code
  does not do this. With alice and bob joined and connected and a store that rejects
  \<open>db.Exec\<close>, a post to general has already written its frame when the INSERT is tried, and
  the failed INSERT is not returned: \<open>log.Fatal\<close> ends the process.
\<close>

theorem postMessage_exec_failure_exits:
  "exec_fault (db srv_exec_down) = Some (ErrStore ''database is locked'')
   \<and> is_Exits (postMessage 1000 srv_exec_down (hello ''general''))
   \<and> is_Exits (newMessageHandler 1000 srv_exec_down (Inr (hello ''general'')))
   \<and> pushed (final (postMessage 1000 srv_exec_down (hello ''general''))) =
        [(11, hello ''general'')]"
  by (simp add: example_defs store_defs post_defs upt_rec)

subsection \<open>The epoch of a persisted message\<close>

text \<open>
  Claim C9, as stated: the clock's time is the epoch only when the caller supplied none, and
  a caller-supplied epoch is kept in the persisted row. It fails: a post that carries the
  epoch 42, taken at clock reading 1000, is stored with epoch 1000.
\<close>

theorem postMessage_epoch_counterexample:
  "Epoch ((hello ''general'')\<lparr>Epoch := Some 42\<rparr>) = Some 42
   \<and> is_Returns (postMessage 1000 srv0 ((hello ''general'')\<lparr>Epoch := Some 42\<rparr>))
   \<and> map row_Epoch
        (Messages (db (final (postMessage 1000 srv0 ((hello ''general'')\<lparr>Epoch := Some 42\<rparr>)))))
      = [1000]"
  by (simp add: example_defs store_defs post_defs)

text \<open>
  Claim C9, amended: \<open>postMessage\<close> never reads the epoch of the message it is given. Every
  post that returns has appended exactly one row, and the row's epoch is the clock reading
  of the call, whether the caller supplied an epoch or not.
\<close>

theorem postMessage_epoch_is_clock:
  assumes "postMessage now s msg = Returns err s'"
  shows "Messages (db s') = Messages (db s) @
       [\<lparr>row_UserID = subselect_id (Users (db s)) (Sender msg), row_Epoch = now,
         row_MessageText = MessageText msg,
         row_RoomID = subselect_id (Rooms (db s)) (RoomName msg)\<rparr>]"
proof -
  from assms obtain r t where rt: "RoomName msg = Some r" "MessageText msg = Some t"
    by (auto simp: postMessage_def split: option.splits)
  from assms show ?thesis
    unfolding postMessage_eq [OF rt]
    by (auto simp: Let_def insert_message_def split: option.splits)
qed

theorem postMessage_epoch_is_clock_witness:
  "postMessage 1000 srv0 ((hello ''general'')\<lparr>Epoch := Some 42\<rparr>) =
     Returns None (final (postMessage 1000 srv0 ((hello ''general'')\<lparr>Epoch := Some 42\<rparr>)))
   \<and> Messages (db (final (postMessage 1000 srv0 ((hello ''general'')\<lparr>Epoch := Some 42\<rparr>)))) =
       [\<lparr>row_UserID = Some 1, row_Epoch = 1000, row_MessageText = Some ''hello'',
         row_RoomID = Some 1\<rparr>]"
proof -
  have h: "postMessage 1000 srv0 ((hello ''general'')\<lparr>Epoch := Some 42\<rparr>) =
     Returns None (final (postMessage 1000 srv0 ((hello ''general'')\<lparr>Epoch := Some 42\<rparr>)))"
    by (simp add: example_defs store_defs post_defs)
  show ?thesis
    using h postMessage_epoch_is_clock [OF h]
    by (simp add: example_defs subselect_id_def)
qed

subsection \<open>Reading a room's messages\<close>

lemma Epoch_row_messages:
  "x \<in> set (row_messages d r m) \<Longrightarrow> Epoch x = Some (row_Epoch m)"
  by (auto simp: row_messages_def split: if_splits)

lemma filter_row_messages:
  "filter (\<lambda>x. case Epoch x of None \<Rightarrow> False | Some e \<Rightarrow> t \<le> e) (row_messages d r m) =
     (if t \<le> row_Epoch m then row_messages d r m else [])"
  by (auto simp: filter_empty_conv filter_id_conv dest: Epoch_row_messages)

lemma filter_rows:
  "filter (\<lambda>x. case Epoch x of None \<Rightarrow> False | Some e \<Rightarrow> t \<le> e)
      (concat (map (row_messages d r) rows)) =
   concat (map (row_messages d r) (filter (\<lambda>m. t \<le> row_Epoch m) rows))"
  by (induction rows) (simp_all add: filter_row_messages)

lemma epochs_append: "epochs (xs @ ys) = epochs xs @ epochs ys"
  by (simp add: epochs_def)

lemma set_epochs_row: "set (epochs (row_messages d r m)) \<subseteq> {row_Epoch m}"
  by (auto simp: epochs_def dest: Epoch_row_messages split: option.splits)

lemma sorted_const: "set xs \<subseteq> {a} \<Longrightarrow> sorted (xs :: int list)"
  by (induction xs) auto

lemma set_epochs_rows:
  "set (epochs (concat (map (row_messages d r) rows))) \<subseteq> row_Epoch ` set rows"
proof (induction rows)
  case Nil
  show ?case by (simp add: epochs_def)
next
  case (Cons m rows)
  then show ?case using set_epochs_row [of d r m] by (auto simp: epochs_append)
qed

text \<open>Rows stored in ascending epoch order are read in ascending epoch order.\<close>

lemma sorted_rows:
  "sorted (map row_Epoch rows) \<Longrightarrow> sorted (epochs (concat (map (row_messages d r) rows)))"
proof (induction rows)
  case Nil
  show ?case by (simp add: epochs_def)
next
  case (Cons m rows)
  have a: "sorted (epochs (row_messages d r m))"
    using set_epochs_row by (rule sorted_const)
  have b: "\<And>x y. x \<in> set (epochs (row_messages d r m)) \<Longrightarrow>
                 y \<in> set (epochs (concat (map (row_messages d r) rows))) \<Longrightarrow> x \<le> y"
    using set_epochs_row [of d r m] set_epochs_rows [of d r rows] Cons.prems by auto
  from Cons a b show ?case by (auto simp: epochs_append sorted_append)
qed

text \<open>
  With unique ids, the joins of the SELECT pair a stored row with at most one user and one
  room: the row gives one message when its room has the name asked for and its sender is
  a user of table \<open>Users\<close>, and none otherwise.
\<close>

lemma concat_key_none:
  "i \<notin> fst ` set xs \<Longrightarrow> concat (map (\<lambda>x. if i = fst x then g x else []) xs) = []"
  by (induction xs) auto

lemma concat_key:
  "distinct (map fst xs) \<Longrightarrow>
   concat (map (\<lambda>x. if i = fst x then g x else []) xs) =
     (case map_of xs i of None \<Rightarrow> [] | Some v \<Rightarrow> g (i, v))"
proof (induction xs)
  case Nil
  show ?case by simp
next
  case (Cons x xs)
  show ?case
  proof (cases "i = fst x")
    case True
    with Cons.prems have "i \<notin> fst ` set xs" by simp
    from concat_key_none [OF this, of g] True show ?thesis
      by (cases x) simp
  next
    case False
    with Cons show ?thesis by (cases x) auto
  qed
qed

lemma row_messages_eq:
  assumes "distinct (map fst (Users d))" "distinct (map fst (Rooms d))"
  shows "row_messages d r m =
           (if room_name d m = Some r \<and> sender_name d m \<noteq> None then [message_of d m] else [])"
proof (cases "row_UserID m")
  case None
  then show ?thesis by (simp add: row_messages_def sender_name_def)
next
  case (Some uid)
  note u = this
  show ?thesis
  proof (cases "row_RoomID m")
    case None
    with u show ?thesis
      by (simp add: row_messages_def room_name_def concat_key [OF assms(1)]
            split: option.splits)
  next
    case (Some rid)
    with u show ?thesis
      by (auto simp: row_messages_def sender_name_def room_name_def message_of_def
            concat_key [OF assms(1)] concat_key [OF assms(2)] split: option.splits)
  qed
qed

lemma rows_eq:
  assumes "distinct (map fst (Users d))" "distinct (map fst (Rooms d))"
  shows "concat (map (row_messages d r) rows) =
           map (message_of d)
             (filter (\<lambda>m. room_name d m = Some r \<and> sender_name d m \<noteq> None) rows)"
  by (induction rows) (simp_all add: row_messages_eq [OF assms])

text \<open>
  Room ids stay unique: \<open>createRoom\<close> gives a new row an id above every id in the table.
\<close>

lemma fold_max_upper:
  "(a :: int) \<le> fold max ys a \<and> (\<forall>y \<in> set ys. y \<le> fold max ys a)"
proof (induction ys arbitrary: a)
  case Nil
  show ?case by simp
next
  case (Cons y ys)
  from Cons [of "max y a"] show ?case by auto
qed

lemma next_id_fresh: "next_id table \<notin> fst ` set table"
proof
  assume "next_id table \<in> fst ` set table"
  then have "next_id table \<in> set (map fst table)" by simp
  with fold_max_upper [of 0 "map fst table"] have "next_id table \<le> fold max (map fst table) 0"
    by blast
  then show False by (simp add: next_id_def)
qed

lemma createRoom_keeps_ids_unique:
  "distinct (map fst (Rooms d)) \<Longrightarrow> distinct (map fst (Rooms (fst (createRoom d r))))"
  using next_id_fresh [of "Rooms d"]
  by (auto simp: createRoom_def split: option.splits)

text \<open>
  Claim C6, as stated: \<open>getMessagesAfter r t\<close> returns exactly the persisted messages of room
  r with epoch at least t, ascending by epoch, a subset of \<open>getMessages r\<close>. Two parts fail.
  After three posts to general, by alice at the clock readings 10 and then 5 and by the
  unknown sender mallory at 20, table \<open>Messages\<close> holds three rows of room general (id 1).
  The query from epoch 0 returns two of them: the row without a user id is dropped by the
  join with \<open>Users\<close>; and it returns the message of epoch 10 before the one of epoch 5,
  since the SELECT has no ORDER BY and the epoch is the wall clock's.
\<close>

theorem getMessagesAfter_counterexample:
  "map row_RoomID (Messages db_clock_back) = [Some 1, Some 1, Some 1]
   \<and> map row_Epoch (Messages db_clock_back) = [10, 5, 20]
   \<and> map row_UserID (Messages db_clock_back) = [Some 1, Some 1, None]
   \<and> getMessagesAfter db_clock_back ''general'' 0 =
       Inr [(hello ''general'')\<lparr>Epoch := Some 10\<rparr>, (hello ''general'')\<lparr>Epoch := Some 5\<rparr>]
   \<and> \<not> sorted (epochs (projr (getMessagesAfter db_clock_back ''general'' 0)))"
  by (simp add: db_clock_back_def srv_clock_back_def getMessagesAfter_def select_messages_def
        row_messages_def epochs_def example_defs store_defs post_defs)

text \<open>
  Claim C6, amended: on a store that answers and whose user ids and room ids are unique,
  \<open>getMessagesAfter r t\<close> returns one message for each stored row of room r whose sender is
  a known user and whose epoch is at least t (inclusive), and nothing else, in the order of
  the stored rows; \<open>getMessages r\<close> does the same without the bound, so the filtered result
  is the unfiltered one restricted to the epochs from t on, and a subset of it. A row
  stored with an unknown sender is returned by neither query. The result is ascending by
  epoch whenever the stored rows are.
\<close>

theorem getMessagesAfter_returns_known_sender_rows:
  assumes "query_fault d = None"
    and "distinct (map fst (Users d))" "distinct (map fst (Rooms d))"
  shows "getMessagesAfter d r t =
           Inr (map (message_of d)
                  (filter (\<lambda>m. room_name d m = Some r \<and> sender_name d m \<noteq> None
                                \<and> t \<le> row_Epoch m)
                     (Messages d)))
       \<and> getMessages d r =
           Inr (map (message_of d)
                  (filter (\<lambda>m. room_name d m = Some r \<and> sender_name d m \<noteq> None)
                     (Messages d)))
       \<and> getMessagesAfter d r t =
           Inr (filter (\<lambda>x. case Epoch x of None \<Rightarrow> False | Some e \<Rightarrow> t \<le> e)
                  (projr (getMessages d r)))
       \<and> set (projr (getMessagesAfter d r t)) \<subseteq> set (projr (getMessages d r))
       \<and> (sorted (map row_Epoch (Messages d))
            \<longrightarrow> sorted (epochs (projr (getMessagesAfter d r t))))"
proof -
  note u = assms(2,3)
  have 1: "getMessagesAfter d r t =
           Inr (map (message_of d)
                  (filter (\<lambda>m. room_name d m = Some r \<and> sender_name d m \<noteq> None
                                \<and> t \<le> row_Epoch m)
                     (Messages d)))"
    by (simp add: getMessagesAfter_def assms(1) select_messages_def rows_eq [OF u] conj_commute
          conj_left_commute)
  have 2: "getMessages d r =
           Inr (map (message_of d)
                  (filter (\<lambda>m. room_name d m = Some r \<and> sender_name d m \<noteq> None)
                     (Messages d)))"
    by (simp add: getMessages_def assms(1) select_messages_def rows_eq [OF u])
  have 3: "getMessagesAfter d r t =
           Inr (filter (\<lambda>x. case Epoch x of None \<Rightarrow> False | Some e \<Rightarrow> t \<le> e)
                  (projr (getMessages d r)))"
    by (simp add: getMessagesAfter_def getMessages_def assms(1) select_messages_def filter_rows)
  have 4: "set (projr (getMessagesAfter d r t)) \<subseteq> set (projr (getMessages d r))"
    by (simp add: 3)
  have 5: "sorted (epochs (projr (getMessagesAfter d r t)))"
    if "sorted (map row_Epoch (Messages d))"
  proof -
    from that have "sorted (map row_Epoch (filter (\<lambda>m. t \<le> row_Epoch m) (Messages d)))"
      by (simp add: sorted_map sorted_wrt_filter)
    then show ?thesis
      by (simp add: getMessagesAfter_def assms(1) select_messages_def sorted_rows)
  qed
  from 1 2 3 4 5 show ?thesis by blast
qed

theorem getMessagesAfter_returns_known_sender_rows_witness:
  "query_fault db_two_posts = None
   \<and> distinct (map fst (Users db_two_posts))
   \<and> distinct (map fst (Rooms db_two_posts))
   \<and> map row_Epoch (Messages db_two_posts) = [10, 20]
   \<and> getMessagesAfter db_two_posts ''general'' 20 = Inr [(hello ''general'')\<lparr>Epoch := Some 20\<rparr>]
   \<and> getMessages db_two_posts ''general'' =
       Inr [(hello ''general'')\<lparr>Epoch := Some 10\<rparr>, (hello ''general'')\<lparr>Epoch := Some 20\<rparr>]
   \<and> sorted (epochs (projr (getMessagesAfter db_two_posts ''general'' 20)))"
proof -
  have d: "db_two_posts =
     db0\<lparr>Messages := [\<lparr>row_UserID = Some 1, row_Epoch = 10, row_MessageText = Some ''hello'',
                         row_RoomID = Some 1\<rparr>,
                        \<lparr>row_UserID = Some 1, row_Epoch = 20, row_MessageText = Some ''hello'',
                         row_RoomID = Some 1\<rparr>]\<rparr>"
    by (simp add: db_two_posts_def example_defs store_defs post_defs)
  have h1: "query_fault db_two_posts = None"
    and h2: "distinct (map fst (Users db_two_posts))"
    and h3: "distinct (map fst (Rooms db_two_posts))"
    and e: "map row_Epoch (Messages db_two_posts) = [10, 20]"
    by (simp_all add: d db0_def)
  note t = getMessagesAfter_returns_known_sender_rows [OF h1 h2 h3, of "''general''" 20]
  from t have a: "getMessagesAfter db_two_posts ''general'' 20 =
      Inr [(hello ''general'')\<lparr>Epoch := Some 20\<rparr>]"
    by (simp add: d db0_def hello_def message_of_def sender_name_def room_name_def)
  from t have b: "getMessages db_two_posts ''general'' =
       Inr [(hello ''general'')\<lparr>Epoch := Some 10\<rparr>, (hello ''general'')\<lparr>Epoch := Some 20\<rparr>]"
    by (simp add: d db0_def hello_def message_of_def sender_name_def room_name_def)
  have s: "sorted (map row_Epoch (Messages db_two_posts))"
    by (simp add: e)
  note c = t [THEN conjunct2, THEN conjunct2, THEN conjunct2, THEN conjunct2, THEN mp, OF s]
  from h1 h2 h3 e a b c show ?thesis by blast
qed

subsection \<open>The client's fallback when the websocket write fails\<close>

text \<open>
  Claim C7: when the push write fails, the client's \<open>postMessage\<close> retries the same message
  over the HTTP persistence path, so the message is not lost. The code does not do this:
  the retry is posted to \<open>/chat/postmsg/\<close>, with a trailing slash, while the server
  registers \<open>/chat/postmsg\<close>. For a client whose websocket write fails and whose HTTP
  transport works, \<open>postMessage\<close> returns after one POST to that URL; the router has no
  route for the path (the handler that persists is the one under \<open>/chat/postmsg\<close>), and the
  client never looks at the response.
\<close>

theorem client_fallback_posts_to_unrouted_path:
  "isConnected client0
   \<and> ws_fault client0 = Some (ErrTransport ''broken pipe'')
   \<and> http_fault client0 = None
   \<and> is_Returns (client_postMessage client0 [] ''hello'')
   \<and> map (\<lambda>q. (req_method q, req_url q, req_body q))
        (requests (final (client_postMessage client0 [] ''hello''))) =
        [(''POST'', ''http://localhost:8080/chat/postmsg/'', Some (hello ''general''))]
   \<and> route_of ''POST'' ''/chat/postmsg/'' = None
   \<and> route_of ''POST'' ''/chat/postmsg'' = Some PostMsg"
  by (simp add: client0_def client_postMessage_def url_def hello_def route_of_def routes_def
        path_matches_def segment_matches_def)

subsection \<open>The client's poller\<close>

text \<open>
  \<open>joinRoom\<close> stores a joined room with \<open>lastUpdate\<close> one hour before the clock reading of the
  join, whenever the server's answer is not a 400.
\<close>

lemma joinRoom_starts_an_hour_back:
  assumes "userName c = Some user" "http_fault c = None" "status \<noteq> 400"
  shows "is_Returns (joinRoom now status c name)
       \<and> clientRooms (final (joinRoom now status c name)) =
           clientRooms c @ [\<lparr>roomName = name, lastUpdate = now - 3600\<rparr>]"
  using assms by (simp add: joinRoom_def Let_def)

text \<open>
  Whatever its outcome, the poller leaves the client's rooms as they were: the only
  assignment to \<open>lastUpdate\<close> in \<open>updateMessages\<close> is to the copy of the room.
\<close>

lemma client_getMessages_rooms:
  "client_getMessages u c = out \<Longrightarrow> clientRooms (final out) = clientRooms c"
  by (auto simp: client_getMessages_def split: option.splits)

lemma poll_rooms_rooms:
  "clientRooms (final (poll_rooms now ids c)) = clientRooms c"
proof (induction ids arbitrary: c)
  case Nil
  show ?case by simp
next
  case (Cons i ids)
  show ?case
    by (auto simp: Let_def Cons.IH split: outcome.splits dest: client_getMessages_rooms)
qed

lemma poll_rooms_rooms_out:
  "poll_rooms now ids c = out \<Longrightarrow> clientRooms (final out) = clientRooms c"
  using poll_rooms_rooms by blast

lemma updateMessages_rooms:
  "clientRooms (final (updateMessages clock c)) = clientRooms c"
proof (induction clock arbitrary: c)
  case Nil
  show ?case by simp
next
  case (Cons now clock)
  show ?case
    by (auto simp: Cons.IH split: outcome.splits dest: poll_rooms_rooms_out)
qed

text \<open>
  The function on a list that holds a room: for a client that joined general at clock
  reading 5000, two passes, at 5005 and 5010, both ask for the messages since 1400, and the
  stored value is still 1400 afterwards. This is \<open>updateMessages\<close> applied to such a list;
  \<open>main\<close> itself calls \<open>updateMessages\<close> at one place only, at the head of its command loop
  when the dial failed, so before the first command is dispatched and with \<open>activeRooms\<close>
  still empty, and the call never returns.
\<close>

lemma updateMessages_two_passes:
  "map lastUpdate (clientRooms client_joined) = [5000 - 3600]
   \<and> is_Returns (updateMessages [5005, 5010] client_joined)
   \<and> map req_url (requests (final (updateMessages [5005, 5010] client_joined))) =
       [''http://localhost:8080/chat/room/general?message-start-time=1400'',
        ''http://localhost:8080/chat/room/general?message-start-time=1400'']
   \<and> map lastUpdate (clientRooms (final (updateMessages [5005, 5010] client_joined))) = [1400]"
  by (simp add: client_joined_def client0_def joinRoom_def client_getMessages_def url_def
        Sprintf_d_def decimal.simps)

subsection \<open>What a new websocket connection is sent\<close>



end
